theory Spec2Isabelle
  imports Complex_Main "HOL-Library.Word"
begin

section \<open>Data model\<close>

text \<open>
  The notebook computes with numpy floats. The embedding idealises them as the real
  numbers: every arithmetic operation of the source is the corresponding operation on
  \<^typ>\<open>real\<close>, and rounding is not modelled. Integer arrays keep their machine type: their
  arithmetic wraps around. Exceptions are values of \<open>error\<close>.
\<close>

datatype error = ValueError | DimensionError

text \<open>A numpy array of three floats (position, velocity, angular velocity).\<close>

datatype vec3 = Vec3 (vx: real) (vy: real) (vz: real)

definition vec3_list :: "vec3 \<Rightarrow> real list" where
  "vec3_list v = [vx v, vy v, vz v]"

text \<open>
  \<open>sym.Rot3\<close> of the symforce library: four stored numbers in xyzw order (the comment in
  \<open>dRot3\<close> says so). \<open>to_storage\<close> reads them, \<open>from_storage\<close> builds a \<open>Rot3\<close> from
  exactly four numbers, without normalising them.
\<close>

datatype Rot3 = Rot3 (qx: real) (qy: real) (qz: real) (qw: real)

definition to_storage :: "Rot3 \<Rightarrow> real list" where
  "to_storage R = [qx R, qy R, qz R, qw R]"

definition from_storage :: "real list \<Rightarrow> error + Rot3" where
  "from_storage v =
     (case v of
        [a, b, c, d] \<Rightarrow> Inr (Rot3 a b c d)
      | _ \<Rightarrow> Inl ValueError)"

text \<open>\<open>Rot3.from_yaw_pitch_roll(0, 0, 0)\<close>, the level orientation of the notebook's runs.\<close>

definition Rot3_identity :: Rot3 where
  "Rot3_identity = Rot3 0 0 0 1"

text \<open>
  \<open>QuadrotorState\<close> is imported from \<open>quadrotor.dynamics\<close>; the notebook constructs it with
  these four keyword fields, and uses the same class for a state and for its derivative.
\<close>

record QuadrotorState =
  position :: vec3
  velocity :: vec3
  orientation :: Rot3
  angular_velocity :: vec3

text \<open>
  A one-dimensional numpy array of rotor rates. The controllers of the notebook build it
  from integer literals (\<open>np.array([598, 598, 0, 0])\<close>), which gives an array of numpy's
  default integer type, 32 or 64 bits wide by platform; an array of floats is the other
  case. \<open>array_take n\<close> is the slice \<open>[:n]\<close>, which keeps the type of the entries.
\<close>

datatype ndarray =
  FloatArray "real list"
| Int32Array "32 word list"
| Int64Array "64 word list"

datatype int_dtype = Int32 | Int64

definition array_length :: "ndarray \<Rightarrow> nat" where
  "array_length a =
     (case a of
        FloatArray xs \<Rightarrow> length xs
      | Int32Array ws \<Rightarrow> length ws
      | Int64Array ws \<Rightarrow> length ws)"

definition array_take :: "nat \<Rightarrow> ndarray \<Rightarrow> ndarray" where
  "array_take n a =
     (case a of
        FloatArray xs \<Rightarrow> FloatArray (take n xs)
      | Int32Array ws \<Rightarrow> Int32Array (take n ws)
      | Int64Array ws \<Rightarrow> Int64Array (take n ws))"

text \<open>\<open>QuadrotorCommands\<close> is imported from \<open>quadrotor.controller\<close>; \<open>step\<close> reads \<open>rotor_rates\<close>.\<close>

record QuadrotorCommands =
  rotor_rates :: ndarray

record Params =
  mass :: real
  inertia :: real
  rotor_diameter :: real
  static_thrust_coefficient :: real
  static_torque_coefficient :: real
  arm_length :: real
  g :: real
  rho :: real

text \<open>
  The dataclass-generated constructor of \<open>Params\<close>: it stores its eight arguments and has
  no \<open>__post_init__\<close>, so no argument is inspected.
\<close>

definition Params_init ::
  "real \<Rightarrow> real \<Rightarrow> real \<Rightarrow> real \<Rightarrow> real \<Rightarrow> real \<Rightarrow> real \<Rightarrow> real \<Rightarrow> error + Params" where
  "Params_init m i d ct cq l gr r =
     Inr \<lparr>mass = m, inertia = i, rotor_diameter = d, static_thrust_coefficient = ct,
          static_torque_coefficient = cq, arm_length = l, g = gr, rho = r\<rparr>"

text \<open>The global \<open>p = Params()\<close>, built from the field defaults.\<close>

definition p_default :: Params where
  "p_default =
     \<lparr>mass = 1.352, inertia = 9.8 / 100, rotor_diameter = 10 * 0.0254,
      static_thrust_coefficient = 0.14553, static_torque_coefficient = 0.01047,
      arm_length = 0.3814 / 2, g = 9.80665, rho = 1.225\<rparr>"

definition rotor_model :: "Params \<Rightarrow> real \<Rightarrow> real" where
  "rotor_model p static_coefficient =
     rho p * static_coefficient * (rotor_diameter p ^ 4) / (4 * pi ^ 2)"

definition k_thrust :: "Params \<Rightarrow> real" where
  "k_thrust p = rotor_model p (static_thrust_coefficient p)"

definition k_torque :: "Params \<Rightarrow> real" where
  "k_torque p = rotor_model p (static_torque_coefficient p)"

section \<open>Orientation kinematics\<close>

text \<open>
  numpy's \<open>M @ v\<close> for a matrix given by its rows: it raises when a row and the vector
  differ in length.
\<close>

definition dot :: "real list \<Rightarrow> real list \<Rightarrow> real" where
  "dot xs ys = sum_list (map2 (*) xs ys)"

definition matmul_vec :: "real list list \<Rightarrow> real list \<Rightarrow> error + real list" where
  "matmul_vec M v =
     (if list_all (\<lambda>row. length row = length v) M
      then Inr (map (\<lambda>row. dot row v) M)
      else Inl ValueError)"

text \<open>The matrix \<open>G\<close> that \<open>dRot3\<close> builds from the stored quaternion \<open>(q0, q1, q2, q3)\<close>.\<close>

definition G_matrix :: "Rot3 \<Rightarrow> real list list" where
  "G_matrix R =
     (case to_storage R of
        [q0, q1, q2, q3] \<Rightarrow>
          [[ q3,  q2, - q1, - q0],
           [- q2,  q3,  q0, - q1],
           [ q1, - q0,  q3, - q2]]
      | _ \<Rightarrow> [])"

definition dRot3 :: "Rot3 \<Rightarrow> real list \<Rightarrow> error + Rot3" where
  "dRot3 R omega =
     (case matmul_vec (transpose (G_matrix R)) omega of
        Inl e \<Rightarrow> Inl e
      | Inr Gt_omega \<Rightarrow> from_storage (map (\<lambda>c. c / 2) Gt_omega))"

text \<open>
  The spec's reference formulation, written from its words and not from the code: the
  4x4 skew-symmetric matrix \<open>\<Omega>(\<omega>)\<close> of a body-frame angular velocity, for a quaternion
  stored in xyzw order, so that the rate of the quaternion is \<open>\<Omega>(\<omega>) q / 2\<close>.
\<close>

definition Omega_spec :: "vec3 \<Rightarrow> real list list" where
  "Omega_spec w =
     [[0, vz w, - vy w, vx w],
      [- vz w, 0, vx w, vy w],
      [vy w, - vx w, 0, vz w],
      [- vx w, - vy w, - vz w, 0]]"

definition quat_rate_spec :: "Rot3 \<Rightarrow> vec3 \<Rightarrow> real list" where
  "quat_rate_spec R w = map (\<lambda>row. dot row (to_storage R) / 2) (Omega_spec w)"

section \<open>Planar dynamics\<close>

text \<open>
  \<open>p.k_thrust * rotor_rates ** 2\<close>. The power is taken in the type of the array: on an
  integer array it is the machine square, which wraps around, and its signed value is
  then converted to a float and multiplied by the float \<open>k_thrust\<close>.
\<close>

definition rotor_thrust_model :: "Params \<Rightarrow> ndarray \<Rightarrow> real list" where
  "rotor_thrust_model p rates =
     (case rates of
        FloatArray xs \<Rightarrow> map (\<lambda>rate. k_thrust p * rate ^ 2) xs
      | Int32Array ws \<Rightarrow> map (\<lambda>rate. k_thrust p * real_of_int (sint (rate ^ 2))) ws
      | Int64Array ws \<Rightarrow> map (\<lambda>rate. k_thrust p * real_of_int (sint (rate ^ 2))) ws)"

text \<open>
  \<open>PlanarQuadrotorDynamics.state_derivative\<close>. \<open>Rot3.to_yaw_pitch_roll\<close> belongs to the
  symforce library and is a parameter: any function from a rotation to its three angles.
  The source reads the angle at index 1.
\<close>

type_synonym yaw_pitch_roll = "Rot3 \<Rightarrow> real \<times> real \<times> real"

definition state_derivative ::
  "yaw_pitch_roll \<Rightarrow> Params \<Rightarrow> QuadrotorState \<Rightarrow> real \<Rightarrow> real \<Rightarrow> error + QuadrotorState" where
  "state_derivative to_yaw_pitch_roll p s u1 u2 =
     (let phi = fst (snd (to_yaw_pitch_roll (orientation s)));
          accel = Vec3 (- sin phi / mass p * u1) 0 (cos phi / mass p * u1 - g p);
          angular_accel = Vec3 0 (u2 / inertia p) 0
      in case dRot3 (orientation s) (vec3_list (angular_velocity s)) of
           Inl e \<Rightarrow> Inl e
         | Inr dq \<Rightarrow>
             Inr \<lparr>position = velocity s, velocity = accel, orientation = dq,
                  angular_velocity = angular_accel\<rparr>)"

section \<open>State vector codec\<close>

text \<open>
  Modelled from the spec: \<open>QuadrotorState.to_state_vector\<close> lives in
  \<open>quadrotor/dynamics.py\<close>, which is not among the sources. The spec asks for a flat
  numeric vector in a fixed field order, encoder and decoder inverse to each other, and
  a vector of the wrong length rejected. The order taken here is the order of the data
  model: position, velocity, orientation (xyzw), angular velocity, thirteen numbers in
  all.
\<close>

definition to_state_vector :: "QuadrotorState \<Rightarrow> real list" where
  "to_state_vector s =
     vec3_list (position s) @ vec3_list (velocity s) @ to_storage (orientation s)
       @ vec3_list (angular_velocity s)"

text \<open>
  Modelled from the spec: \<open>QuadrotorState.from_state_vector\<close> of \<open>quadrotor/dynamics.py\<close>
  (not among the sources), the inverse of \<open>to_state_vector\<close>: it reads the thirteen numbers
  back in the same order and rejects a vector of any other length.
\<close>

definition from_state_vector :: "real list \<Rightarrow> error + QuadrotorState" where
  "from_state_vector v =
     (if length v = 13
      then Inr \<lparr>position = Vec3 (v ! 0) (v ! 1) (v ! 2),
                velocity = Vec3 (v ! 3) (v ! 4) (v ! 5),
                orientation = Rot3 (v ! 6) (v ! 7) (v ! 8) (v ! 9),
                angular_velocity = Vec3 (v ! 10) (v ! 11) (v ! 12)\<rparr>
      else Inl DimensionError)"

section \<open>The step operation\<close>

text \<open>
  \<open>scipy.integrate.solve_ivp\<close> is a library function and a parameter of the model. An
  \<open>ivp_solver\<close> stands for the call \<open>solve_ivp(fun, t_span, y0, method='RK45')\<close> followed by
  the read of the last column of its \<open>y\<close>: it takes the derivative function, the
  interval and the initial vector, and gives the vector at the end of the interval, or
  fails.
\<close>

type_synonym ode_fun = "real \<Rightarrow> real list \<Rightarrow> error + real list"

type_synonym ivp_solver = "ode_fun \<Rightarrow> real \<times> real \<Rightarrow> real list \<Rightarrow> error + real list"

text \<open>The object \<open>self\<close>: the fields of \<open>PlanarQuadrotorDynamics\<close> that \<open>step\<close> reads and writes.\<close>

record PlanarQuadrotorDynamics =
  dt :: real
  state :: QuadrotorState

text \<open>
  The first statements of \<open>step\<close>: the thrusts of the first two rotor rates, unpacked into
  exactly two values (Python raises \<open>ValueError\<close> when the slice holds fewer), then the
  total thrust and the net torque.
\<close>

definition generalized_inputs :: "Params \<Rightarrow> QuadrotorCommands \<Rightarrow> error + real \<times> real" where
  "generalized_inputs p input =
     (case rotor_thrust_model p (array_take 2 (rotor_rates input)) of
        [F1, F2] \<Rightarrow>
          (let u1 = F1 + F2;
               u2 = (F1 - F2) * arm_length p
           in Inr (u1, u2))
      | _ \<Rightarrow> Inl ValueError)"

text \<open>The local function \<open>state_derivative(t, state)\<close> that \<open>step\<close> hands to the solver.\<close>

definition step_state_derivative ::
  "yaw_pitch_roll \<Rightarrow> Params \<Rightarrow> real \<Rightarrow> real \<Rightarrow> ode_fun" where
  "step_state_derivative to_yaw_pitch_roll p u1 u2 = (\<lambda>t state_vector.
     case from_state_vector state_vector of
       Inl e \<Rightarrow> Inl e
     | Inr s \<Rightarrow>
         (case state_derivative to_yaw_pitch_roll p s u1 u2 of
            Inl e \<Rightarrow> Inl e
          | Inr d \<Rightarrow> Inr (to_state_vector d)))"

definition step ::
  "ivp_solver \<Rightarrow> yaw_pitch_roll \<Rightarrow> Params \<Rightarrow> PlanarQuadrotorDynamics \<Rightarrow> real
     \<Rightarrow> QuadrotorCommands \<Rightarrow> error + PlanarQuadrotorDynamics" where
  "step solve_ivp to_yaw_pitch_roll p self t input =
     (case generalized_inputs p input of
        Inl e \<Rightarrow> Inl e
      | Inr (u1, u2) \<Rightarrow>
          (let state_vector = to_state_vector (state self)
           in case solve_ivp (step_state_derivative to_yaw_pitch_roll p u1 u2)
                     (0, dt self) state_vector of
                Inl e \<Rightarrow> Inl e
              | Inr y \<Rightarrow>
                  (case from_state_vector y of
                     Inl e \<Rightarrow> Inl e
                   | Inr s' \<Rightarrow> Inr (self\<lparr>state := s'\<rparr>))))"

text \<open>
  Modelled from the spec: the simulation loop of \<open>quadrotor/simulator.py\<close>, which is not
  among the sources (the traceback kept in the notebook shows its body). It calls \<open>step\<close>
  once per tick with the tick's command, records the state that \<open>step\<close> returns and
  advances the time by \<open>dt\<close>. The controller is outside the core, so a run is given by its
  sequence of commands.
\<close>

fun simulate ::
  "ivp_solver \<Rightarrow> yaw_pitch_roll \<Rightarrow> Params \<Rightarrow> PlanarQuadrotorDynamics \<Rightarrow> real
     \<Rightarrow> QuadrotorCommands list \<Rightarrow> error + QuadrotorState list" where
  "simulate solve_ivp ypr p self t [] = Inr []"
| "simulate solve_ivp ypr p self t (c # cs) =
     (case step solve_ivp ypr p self t c of
        Inl e \<Rightarrow> Inl e
      | Inr self' \<Rightarrow>
          (case simulate solve_ivp ypr p self' (t + dt self') cs of
             Inl e \<Rightarrow> Inl e
           | Inr out \<Rightarrow> Inr (state self' # out)))"

section \<open>Reference notions for the integrator\<close>

text \<open>
  What an \<open>ivp_solver\<close> is expected to approximate. \<open>ivp_solution f T y0 Y\<close> says that the
  curve \<open>Y\<close> starts at \<open>y0\<close> and that, at every time of \<open>[0, T]\<close>, the derivative function
  \<open>f\<close> returns a vector whose entries are the derivatives of the entries of \<open>Y\<close>.
\<close>

definition ivp_solution :: "ode_fun \<Rightarrow> real \<Rightarrow> real list \<Rightarrow> (real \<Rightarrow> real list) \<Rightarrow> bool" where
  "ivp_solution f T y0 Y \<longleftrightarrow>
     Y 0 = y0 \<and>
     (\<forall>t. 0 \<le> t \<and> t \<le> T \<longrightarrow>
        (\<exists>d. f t (Y t) = Inr d \<and> length (Y t) = length y0 \<and> length d = length y0 \<and>
             (\<forall>i < length y0. ((\<lambda>\<tau>. Y \<tau> ! i) has_real_derivative d ! i) (at t))))"

text \<open>
  The solver is accurate within \<open>eps\<close> on the problems that \<open>step\<close> poses with zero inputs
  from a state that does not rotate: it returns a vector of thirteen entries whose
  position and velocity entries lie within \<open>eps\<close> of the end point of a solution, and whose
  orientation and angular velocity entries, the entries whose rates vanish along the
  solution, are those of the end point. With \<open>eps = 0\<close> the solver is exact on these
  problems, as an explicit Runge-Kutta method of order two or more is in real
  arithmetic, the solution being a polynomial of degree two in the time.
\<close>

definition accurate_on_free_fall ::
  "ivp_solver \<Rightarrow> yaw_pitch_roll \<Rightarrow> Params \<Rightarrow> real \<Rightarrow> real \<Rightarrow> bool" where
  "accurate_on_free_fall solve_ivp ypr p T eps \<longleftrightarrow>
     (\<forall>s. angular_velocity s = Vec3 0 0 0 \<longrightarrow>
        (\<exists>Y y. ivp_solution (step_state_derivative ypr p 0 0) T (to_state_vector s) Y \<and>
             solve_ivp (step_state_derivative ypr p 0 0) (0, T) (to_state_vector s) = Inr y \<and>
             length y = 13 \<and>
             (\<forall>i<6. \<bar>y ! i - Y T ! i\<bar> \<le> eps) \<and>
             (\<forall>i. 6 \<le> i \<and> i < 13 \<longrightarrow> y ! i = Y T ! i)))"

text \<open>
  The solver does nothing on an interval of length zero: when the derivative function
  returns on every vector of the length of the initial vector, the solver returns the
  initial vector.
\<close>

definition identity_on_empty_interval :: "ivp_solver \<Rightarrow> bool" where
  "identity_on_empty_interval solve_ivp \<longleftrightarrow>
     (\<forall>f y. (\<forall>t v. length v = length y \<longrightarrow> (\<exists>d. f t v = Inr d))
        \<longrightarrow> solve_ivp f (0, 0) y = Inr y)"

text \<open>
  Motion under gravity alone, in closed form, on a state vector and on a state: the
  position advances by \<open>T * velocity - g T\<^sup>2 / 2\<close> along z, the velocity by \<open>- g T\<close> along z,
  orientation and angular velocity stay. \<open>free_fall_solver\<close> is the solver that returns
  this closed form; it serves as a concrete solver.
\<close>

definition free_fall_flow :: "real \<Rightarrow> real \<Rightarrow> real list \<Rightarrow> real list" where
  "free_fall_flow gr T y =
     (if length y = 13
      then [y ! 0 + T * y ! 3, y ! 1 + T * y ! 4, y ! 2 + T * y ! 5 - gr * T ^ 2 / 2,
            y ! 3, y ! 4, y ! 5 - gr * T,
            y ! 6, y ! 7, y ! 8, y ! 9,
            y ! 10, y ! 11, y ! 12]
      else y)"

definition free_fall_solver :: "real \<Rightarrow> ivp_solver" where
  "free_fall_solver gr f t_span y0 = Inr (free_fall_flow gr (snd t_span - fst t_span) y0)"

definition free_fall_state :: "real \<Rightarrow> real \<Rightarrow> QuadrotorState \<Rightarrow> QuadrotorState" where
  "free_fall_state gr T s =
     s\<lparr>position :=
         Vec3 (vx (position s) + T * vx (velocity s))
              (vy (position s) + T * vy (velocity s))
              (vz (position s) + T * vz (velocity s) - gr * T ^ 2 / 2),
       velocity :=
         Vec3 (vx (velocity s)) (vy (velocity s)) (vz (velocity s) - gr * T)\<rparr>"

text \<open>The state at rest at the origin, level, as the notebook's runs start.\<close>

definition initial_state :: QuadrotorState where
  "initial_state =
     \<lparr>position = Vec3 0 0 0, velocity = Vec3 0 0 0, orientation = Rot3_identity,
      angular_velocity = Vec3 0 0 0\<rparr>"

text \<open>
  The command of \<open>EmptyController\<close>, \<open>np.array([0, 0, 0, 0])\<close>: four zero rotor rates in the
  default integer type of the platform.
\<close>

fun zero_command :: "int_dtype \<Rightarrow> QuadrotorCommands" where
  "zero_command Int32 = \<lparr>rotor_rates = Int32Array [0, 0, 0, 0]\<rparr>"
| "zero_command Int64 = \<lparr>rotor_rates = Int64Array [0, 0, 0, 0]\<rparr>"

section \<open>States that are not well formed\<close>

text \<open>
  The states above have three numbers per vector, four per orientation, and all of them
  finite. The Python object can hold arrays of any length and floats that are not
  finite. \<open>float64\<close> adds the values that are not numbers, and a \<open>RawQuadrotorState\<close> is a
  \<open>QuadrotorState\<close> object with arbitrary contents; the orientation is given by the storage
  of its \<open>Rot3\<close>.
\<close>

datatype float64 = Finite real | PosInf | NegInf | NaN

fun is_finite :: "float64 \<Rightarrow> bool" where
  "is_finite (Finite r) = True"
| "is_finite PosInf = False"
| "is_finite NegInf = False"
| "is_finite NaN = False"

fun float_val :: "float64 \<Rightarrow> real" where
  "float_val (Finite r) = r"
| "float_val PosInf = 0"
| "float_val NegInf = 0"
| "float_val NaN = 0"

record RawQuadrotorState =
  raw_position :: "float64 list"
  raw_velocity :: "float64 list"
  raw_orientation :: "float64 list"
  raw_angular_velocity :: "float64 list"

definition raw_of_state :: "QuadrotorState \<Rightarrow> RawQuadrotorState" where
  "raw_of_state s =
     \<lparr>raw_position = map Finite (vec3_list (position s)),
      raw_velocity = map Finite (vec3_list (velocity s)),
      raw_orientation = map Finite (to_storage (orientation s)),
      raw_angular_velocity = map Finite (vec3_list (angular_velocity s))\<rparr>"

text \<open>
  Modelled from the spec: \<open>QuadrotorState.to_state_vector\<close> of \<open>quadrotor/dynamics.py\<close> (not
  among the sources) on an object with arbitrary contents: the flat vector of the four
  fields in the fixed order, whatever their lengths and values.
\<close>

definition raw_to_state_vector :: "RawQuadrotorState \<Rightarrow> float64 list" where
  "raw_to_state_vector s =
     raw_position s @ raw_velocity s @ raw_orientation s @ raw_angular_velocity s"

text \<open>
  The library call \<open>solve_ivp(fun, t_span, y0, method='RK45')\<close> with an initial vector of
  arbitrary contents, again a parameter. On a vector of finite entries it is an
  \<open>ivp_solver\<close>.
\<close>

type_synonym numpy_ivp_solver =
  "ode_fun \<Rightarrow> real \<times> real \<Rightarrow> float64 list \<Rightarrow> error + real list"

definition on_finite :: "numpy_ivp_solver \<Rightarrow> ivp_solver" where
  "on_finite solve_ivp f t_span y0 = solve_ivp f t_span (map Finite y0)"

text \<open>
  \<open>step\<close> on a held state of arbitrary contents: the same statements as \<open>step\<close>, with the
  time step and the held state as arguments and the new state as result.
\<close>

definition step_raw ::
  "numpy_ivp_solver \<Rightarrow> yaw_pitch_roll \<Rightarrow> Params \<Rightarrow> real \<Rightarrow> RawQuadrotorState \<Rightarrow> real
     \<Rightarrow> QuadrotorCommands \<Rightarrow> error + QuadrotorState" where
  "step_raw solve_ivp to_yaw_pitch_roll p self_dt self_state t input =
     (case generalized_inputs p input of
        Inl e \<Rightarrow> Inl e
      | Inr (u1, u2) \<Rightarrow>
          (let state_vector = raw_to_state_vector self_state
           in case solve_ivp (step_state_derivative to_yaw_pitch_roll p u1 u2)
                     (0, self_dt) state_vector of
                Inl e \<Rightarrow> Inl e
              | Inr y \<Rightarrow> from_state_vector y))"

text \<open>
  What the library does before it integrates: it rejects an initial vector with an
  entry that is not finite, and it evaluates the derivative function at the initial
  point (the traceback kept in the notebook shows this call in the constructor of the
  solver), so that a failure of this evaluation is the failure of the call.
\<close>

definition validates_initial_vector :: "numpy_ivp_solver \<Rightarrow> bool" where
  "validates_initial_vector solve_ivp \<longleftrightarrow>
     (\<forall>f t_span y0. \<not> list_all is_finite y0 \<longrightarrow> solve_ivp f t_span y0 = Inl ValueError) \<and>
     (\<forall>f t_span y0 e. list_all is_finite y0 \<and> f (fst t_span) (map float_val y0) = Inl e
        \<longrightarrow> solve_ivp f t_span y0 = Inl e)"

text \<open>
  A concrete library call: the two checks, then the integration by a given solver.
\<close>

definition checked_solver :: "ivp_solver \<Rightarrow> numpy_ivp_solver" where
  "checked_solver integrate f t_span y0 =
     (if \<not> list_all is_finite y0 then Inl ValueError
      else case f (fst t_span) (map float_val y0) of
             Inl e \<Rightarrow> Inl e
           | Inr d \<Rightarrow> integrate f t_span (map float_val y0))"

text \<open>
  The state \<open>s\<close> is the state of free fall from rest after \<open>k\<close> ticks of length \<open>T\<close>, up to
  the error that \<open>k\<close> solver calls of accuracy \<open>eps\<close> can have accumulated: the z velocity
  is \<open>- g * (k T)\<close> within \<open>k eps\<close>, the z position is \<open>- g * (k T)\<^sup>2 / 2\<close> within
  \<open>k eps + k (k - 1) / 2 * T * eps\<close>, orientation and angular velocity are those of the start.
\<close>

definition free_fall_within :: "real \<Rightarrow> real \<Rightarrow> real \<Rightarrow> nat \<Rightarrow> QuadrotorState \<Rightarrow> bool" where
  "free_fall_within gr T eps k s \<longleftrightarrow>
     \<bar>vz (velocity s) + gr * (real k * T)\<bar> \<le> real k * eps
     \<and> \<bar>vz (position s) + gr * (real k * T) ^ 2 / 2\<bar>
         \<le> real k * eps + real k * (real k - 1) / 2 * T * eps
     \<and> orientation s = Rot3_identity
     \<and> angular_velocity s = Vec3 0 0 0"

section \<open>Orientation kinematics: results\<close>

lemma transpose_G_matrix:
  "transpose (G_matrix (Rot3 x y z w)) =
     [[w, - z, y], [z, w, - x], [- y, x, w], [- x, - y, - z]]"
  by (simp add: G_matrix_def to_storage_def)

lemma dRot3_components:
  "dRot3 (Rot3 x y z w) [a, b, c] =
     Inr (Rot3 ((w * a - z * b + y * c) / 2) ((z * a + w * b - x * c) / 2)
               ((- y * a + x * b + w * c) / 2) ((- x * a - y * b - z * c) / 2))"
  by (simp add: dRot3_def transpose_G_matrix matmul_vec_def dot_def from_storage_def)

lemma Gt_omega_components:
  "matmul_vec (transpose (G_matrix (Rot3 x y z w))) [a, b, c] =
     Inr [w * a - z * b + y * c, z * a + w * b - x * c,
          - y * a + x * b + w * c, - x * a - y * b - z * c]"
  by (simp add: transpose_G_matrix matmul_vec_def dot_def)

text \<open>
  C3: for every quaternion \<open>R\<close> stored in xyzw order and every body-frame angular
  velocity \<open>w\<close>, \<open>dRot3\<close> returns the halved product of the transposed 3x4 matrix \<open>G\<close> with
  \<open>w\<close>, and this value is the quaternion rate \<open>\<Omega>(w) q / 2\<close> of the kinematics identity,
  where \<open>\<Omega>(w)\<close> is skew-symmetric (its transpose is its negation).
\<close>

theorem dRot3_quaternion_kinematics:
  "\<exists>Gt_w dq. matmul_vec (transpose (G_matrix R)) (vec3_list w) = Inr Gt_w
     \<and> dRot3 R (vec3_list w) = Inr dq
     \<and> to_storage dq = map (\<lambda>c. c / 2) Gt_w
     \<and> to_storage dq = quat_rate_spec R w
     \<and> transpose (Omega_spec w) = map (map uminus) (Omega_spec w)"
proof (cases R; cases w)
  fix x y z s a b c
  assume R: "R = Rot3 x y z s" and w: "w = Vec3 a b c"
  have rate: "map (\<lambda>c. c / 2) [s * a - z * b + y * c, z * a + s * b - x * c,
          - y * a + x * b + s * c, - x * a - y * b - z * c] = quat_rate_spec R w"
    by (simp add: R w quat_rate_spec_def Omega_spec_def dot_def to_storage_def algebra_simps)
  have skew: "transpose (Omega_spec w) = map (map uminus) (Omega_spec w)"
    by (simp add: Omega_spec_def)
  show ?thesis
    using rate skew
    by (simp add: R w vec3_list_def Gt_omega_components dRot3_components to_storage_def)
qed

section \<open>Planar dynamics: results\<close>

text \<open>
  C1: for every state and every pair of inputs \<open>u1\<close>, \<open>u2\<close>, \<open>state_derivative\<close> returns a
  derivative whose position rate is the state's velocity, whose velocity rate is
  \<open>(- sin \<phi> * u1 / mass, 0, cos \<phi> * u1 / mass - g)\<close> with \<open>\<phi>\<close> the pitch angle read from the
  orientation, whose orientation rate is what \<open>dRot3\<close> gives for the state's orientation
  and angular velocity, and whose angular velocity rate is \<open>(0, u2 / inertia, 0)\<close>.
\<close>

theorem state_derivative_fields:
  "\<exists>d. state_derivative ypr p s u1 u2 = Inr d
     \<and> position d = velocity s
     \<and> velocity d =
         (let phi = fst (snd (ypr (orientation s)))
          in Vec3 (- sin phi * u1 / mass p) 0 (cos phi * u1 / mass p - g p))
     \<and> dRot3 (orientation s) (vec3_list (angular_velocity s)) = Inr (orientation d)
     \<and> angular_velocity d = Vec3 0 (u2 / inertia p) 0"
  by (cases "orientation s"; cases "angular_velocity s")
     (simp add: state_derivative_def dRot3_components vec3_list_def Let_def)

lemma generalized_inputs_float:
  "generalized_inputs p \<lparr>rotor_rates = FloatArray (r1 # r2 # rest)\<rparr> =
     Inr (k_thrust p * r1 ^ 2 + k_thrust p * r2 ^ 2,
          (k_thrust p * r1 ^ 2 - k_thrust p * r2 ^ 2) * arm_length p)"
  by (simp add: generalized_inputs_def rotor_thrust_model_def array_take_def)

lemma generalized_inputs_int32:
  "generalized_inputs p \<lparr>rotor_rates = Int32Array (r1 # r2 # rest)\<rparr> =
     Inr (k_thrust p * real_of_int (sint (r1 ^ 2)) + k_thrust p * real_of_int (sint (r2 ^ 2)),
          (k_thrust p * real_of_int (sint (r1 ^ 2)) - k_thrust p * real_of_int (sint (r2 ^ 2)))
            * arm_length p)"
  by (simp add: generalized_inputs_def rotor_thrust_model_def array_take_def)

lemma generalized_inputs_int64:
  "generalized_inputs p \<lparr>rotor_rates = Int64Array (r1 # r2 # rest)\<rparr> =
     Inr (k_thrust p * real_of_int (sint (r1 ^ 2)) + k_thrust p * real_of_int (sint (r2 ^ 2)),
          (k_thrust p * real_of_int (sint (r1 ^ 2)) - k_thrust p * real_of_int (sint (r2 ^ 2)))
            * arm_length p)"
  by (simp add: generalized_inputs_def rotor_thrust_model_def array_take_def)

lemma two_or_more:
  assumes "2 \<le> length xs"
  obtains x1 x2 rest where "xs = x1 # x2 # rest"
  using assms by (cases xs; cases "tl xs") auto

lemma generalized_inputs_defined:
  assumes "2 \<le> array_length (rotor_rates input)"
  shows "\<exists>u1 u2. generalized_inputs p input = Inr (u1, u2)"
proof (cases "rotor_rates input")
  case (FloatArray xs)
  with assms have "2 \<le> length xs" by (simp add: array_length_def)
  then obtain r1 r2 rest where "xs = r1 # r2 # rest" by (rule two_or_more)
  with FloatArray have "input = \<lparr>rotor_rates = FloatArray (r1 # r2 # rest)\<rparr>" by simp
  then show ?thesis using generalized_inputs_float [of p r1 r2 rest] by simp
next
  case (Int32Array ws)
  with assms have "2 \<le> length ws" by (simp add: array_length_def)
  then obtain r1 r2 rest where "ws = r1 # r2 # rest" by (rule two_or_more)
  with Int32Array have "input = \<lparr>rotor_rates = Int32Array (r1 # r2 # rest)\<rparr>" by simp
  then show ?thesis using generalized_inputs_int32 [of p r1 r2 rest] by simp
next
  case (Int64Array ws)
  with assms have "2 \<le> length ws" by (simp add: array_length_def)
  then obtain r1 r2 rest where "ws = r1 # r2 # rest" by (rule two_or_more)
  with Int64Array have "input = \<lparr>rotor_rates = Int64Array (r1 # r2 # rest)\<rparr>" by simp
  then show ?thesis using generalized_inputs_int64 [of p r1 r2 rest] by simp
qed

text \<open>
  On floats, and on integers whose square fits the width of their type, the thrust is
  \<open>k_thrust * rate\<^sup>2\<close>; the hover command of the notebook is of this kind.
\<close>

lemma sint_square_in_range:
  fixes w :: "'a::len word"
  assumes "(sint w) ^ 2 < 2 ^ (LENGTH('a) - 1)"
  shows "sint (w ^ 2) = (sint w) ^ 2"
proof -
  have prod: "sint (w * w) = signed_take_bit (LENGTH('a) - 1) (sint w * sint w)"
    by (simp add: sint_word_ariths)
  have "(0::int) \<le> sint w * sint w"
    by simp
  moreover have "- (2 ^ (LENGTH('a) - 1)) \<le> (0::int)"
    by simp
  ultimately have low: "- (2 ^ (LENGTH('a) - 1)) \<le> sint w * sint w"
    by (rule order_trans [rotated])
  have high: "sint w * sint w < 2 ^ (LENGTH('a) - 1)"
    using assms by (simp add: power2_eq_square)
  have "signed_take_bit (LENGTH('a) - 1) (sint w * sint w) = sint w * sint w"
    using low high by (rule signed_take_bit_int_eq_self)
  with prod show ?thesis
    by (simp add: power2_eq_square)
qed

lemma rotor_thrust_model_hover:
  "rotor_thrust_model p (array_take 2 (Int32Array [598, 598, 0, 0])) =
     [k_thrust p * 598 ^ 2, k_thrust p * 598 ^ 2]"
  by (simp add: rotor_thrust_model_def array_take_def)

lemma k_thrust_default_positive: "0 < k_thrust p_default"
  by (simp add: k_thrust_def rotor_model_def p_default_def)

text \<open>
  C2: the claim fails on the code. With the rotor rate \<open>46341\<close> in an array of 32-bit
  integers, or \<open>4000000000\<close> in an array of 64-bit integers, the machine square wraps
  around: the thrust that \<open>rotor_thrust_model\<close> returns is \<open>k_thrust\<close> times a negative
  number, a negative thrust with the default parameters, and not \<open>k_thrust * rate\<^sup>2\<close>; the
  generalised inputs are formed from it, and \<open>step\<close> hands them to the solver.
\<close>

theorem rotor_thrust_model_wraps:
  "rotor_thrust_model p (Int32Array [46341, 0]) = [k_thrust p * (- 2147479015), 0]
   \<and> rotor_thrust_model p (Int64Array [4000000000, 0]) =
       [k_thrust p * (- 2446744073709551616), 0]
   \<and> k_thrust p_default * (- 2147479015) < 0
   \<and> generalized_inputs p \<lparr>rotor_rates = Int32Array [46341, 0, 0, 0]\<rparr> =
       Inr (k_thrust p * (- 2147479015), k_thrust p * (- 2147479015) * arm_length p)
   \<and> step sv ypr p self t \<lparr>rotor_rates = Int32Array [46341, 0, 0, 0]\<rparr> =
       (case sv (step_state_derivative ypr p (k_thrust p * (- 2147479015))
                   (k_thrust p * (- 2147479015) * arm_length p))
               (0, dt self) (to_state_vector (state self)) of
          Inl e \<Rightarrow> Inl e
        | Inr y \<Rightarrow>
            (case from_state_vector y of
               Inl e \<Rightarrow> Inl e
             | Inr s' \<Rightarrow> Inr (self\<lparr>state := s'\<rparr>)))"
proof -
  have gen: "generalized_inputs p \<lparr>rotor_rates = Int32Array [46341, 0, 0, 0]\<rparr> =
       Inr (k_thrust p * (- 2147479015), k_thrust p * (- 2147479015) * arm_length p)"
    by (simp add: generalized_inputs_int32)
  have neg: "k_thrust p_default * (- 2147479015) < 0"
    using k_thrust_default_positive by (simp add: mult_less_0_iff)
  show ?thesis
    using neg by (simp add: gen step_def) (simp add: rotor_thrust_model_def)
qed

lemma step_ignores_time:
  "step sv ypr p self t1 input = step sv ypr p self t2 input"
  by (simp add: step_def)

text \<open>
  C10: \<open>step\<close> ignores its time argument: from the same held state and with the same
  command, any two times give the same result.
\<close>

theorem step_time_independent:
  "step sv ypr p self t1 input = step sv ypr p self t2 input"
  by (rule step_ignores_time)

section \<open>State vector codec: results\<close>

lemma length13E:
  assumes "length v = 13"
  obtains a0 a1 a2 a3 a4 a5 a6 a7 a8 a9 a10 a11 a12 where
    "v = [a0, a1, a2, a3, a4, a5, a6, a7, a8, a9, a10, a11, a12]"
  using assms by (auto simp add: numeral_eq_Suc length_Suc_conv)

lemma to_state_vector_length: "length (to_state_vector s) = 13"
  by (simp add: to_state_vector_def vec3_list_def to_storage_def)

lemma from_to_state_vector: "from_state_vector (to_state_vector s) = Inr s"
  by (simp add: from_state_vector_def to_state_vector_def vec3_list_def to_storage_def)

lemma to_from_state_vector:
  assumes "from_state_vector v = Inr s"
  shows "to_state_vector s = v"
proof -
  have len: "length v = 13"
    using assms by (simp add: from_state_vector_def split: if_splits)
  then obtain a0 a1 a2 a3 a4 a5 a6 a7 a8 a9 a10 a11 a12 where
    v: "v = [a0, a1, a2, a3, a4, a5, a6, a7, a8, a9, a10, a11, a12]"
    by (rule length13E)
  show ?thesis
    using assms unfolding v
    by (auto simp add: from_state_vector_def to_state_vector_def vec3_list_def to_storage_def)
qed

text \<open>
  C4: decoding the encoding of a state gives the state back, exactly and therefore
  within any tolerance; the encoding has thirteen entries in the fixed order; and a
  vector that decodes to a state is the encoding of that state, so that encoder and
  decoder are inverse to each other.
\<close>

theorem codec_round_trip:
  "from_state_vector (to_state_vector s) = Inr s
   \<and> length (to_state_vector s) = 13
   \<and> (from_state_vector v = Inr s' \<longrightarrow> to_state_vector s' = v)"
  by (simp add: from_to_state_vector to_state_vector_length to_from_state_vector)

text \<open>The round trip on the vector \<open>1, \<dots>, 13\<close>.\<close>

theorem codec_round_trip_witness:
  "from_state_vector [1, 2, 3, 4, 5, 6, 7, 8, 9, 10, 11, 12, 13] =
     Inr \<lparr>position = Vec3 1 2 3, velocity = Vec3 4 5 6, orientation = Rot3 7 8 9 10,
          angular_velocity = Vec3 11 12 13\<rparr>
   \<and> to_state_vector \<lparr>position = Vec3 1 2 3, velocity = Vec3 4 5 6,
        orientation = Rot3 7 8 9 10, angular_velocity = Vec3 11 12 13\<rparr> =
     [1, 2, 3, 4, 5, 6, 7, 8, 9, 10, 11, 12, 13]"
proof -
  have dec: "from_state_vector [1, 2, 3, 4, 5, 6, 7, 8, 9, 10, 11, 12, 13] =
     Inr \<lparr>position = Vec3 1 2 3, velocity = Vec3 4 5 6, orientation = Rot3 7 8 9 10,
          angular_velocity = Vec3 11 12 13\<rparr>"
    by (simp add: from_state_vector_def)
  show ?thesis
    using dec codec_round_trip [of _ "[1, 2, 3, 4, 5, 6, 7, 8, 9, 10, 11, 12, 13]"
        "\<lparr>position = Vec3 1 2 3, velocity = Vec3 4 5 6, orientation = Rot3 7 8 9 10,
          angular_velocity = Vec3 11 12 13\<rparr>"]
    by simp
qed

section \<open>The step operation: results\<close>

lemma step_state_derivative_vector:
  assumes "length v = 13"
  shows "step_state_derivative ypr p u1 u2 t v =
     (let phi = fst (snd (ypr (Rot3 (v ! 6) (v ! 7) (v ! 8) (v ! 9))))
      in Inr [v ! 3, v ! 4, v ! 5,
              - sin phi / mass p * u1, 0, cos phi / mass p * u1 - g p,
              (v ! 9 * v ! 10 - v ! 8 * v ! 11 + v ! 7 * v ! 12) / 2,
              (v ! 8 * v ! 10 + v ! 9 * v ! 11 - v ! 6 * v ! 12) / 2,
              (- v ! 7 * v ! 10 + v ! 6 * v ! 11 + v ! 9 * v ! 12) / 2,
              (- v ! 6 * v ! 10 - v ! 7 * v ! 11 - v ! 8 * v ! 12) / 2,
              0, u2 / inertia p, 0])"
  using assms
  by (simp add: step_state_derivative_def from_state_vector_def state_derivative_def
      vec3_list_def dRot3_components to_state_vector_def to_storage_def Let_def)

text \<open>A run does not depend on the time at which it starts.\<close>

lemma simulate_ignores_time:
  "simulate sv ypr p self t1 cmds = simulate sv ypr p self t2 cmds"
proof (induction cmds arbitrary: self t1 t2)
  case Nil
  show ?case by simp
next
  case (Cons c cs)
  have "simulate sv ypr p self' (t1 + dt self') cs = simulate sv ypr p self' (t2 + dt self') cs"
    for self'
    by (rule Cons.IH)
  then show ?case
    by (simp add: step_ignores_time [of sv ypr p self t1 c t2] split: sum.splits)
qed

lemma free_fall_flow_zero: "free_fall_flow gr 0 y = y"
proof (cases "length y = 13")
  case True
  then obtain a0 a1 a2 a3 a4 a5 a6 a7 a8 a9 a10 a11 a12 where
    "y = [a0, a1, a2, a3, a4, a5, a6, a7, a8, a9, a10, a11, a12]"
    by (rule length13E)
  then show ?thesis by (simp add: free_fall_flow_def)
next
  case False
  then show ?thesis by (simp add: free_fall_flow_def)
qed

lemma free_fall_solver_identity_on_empty_interval:
  "identity_on_empty_interval (free_fall_solver gr)"
  by (simp add: identity_on_empty_interval_def free_fall_solver_def free_fall_flow_zero)

text \<open>
  C8: with a time step of zero, and a solver that returns the initial vector on the
  interval of length zero, \<open>step\<close> leaves the held state unchanged, for every held state
  and every command with at least two rotor rates.
\<close>

theorem zero_duration_step:
  assumes "identity_on_empty_interval solve_ivp" and "dt self = 0"
    and "2 \<le> array_length (rotor_rates input)"
  shows "step solve_ivp ypr p self t input = Inr self"
proof -
  obtain u1 u2 where u: "generalized_inputs p input = Inr (u1, u2)"
    using generalized_inputs_defined [OF assms(3)] by blast
  have total: "\<exists>d. step_state_derivative ypr p u1 u2 \<tau> v = Inr d"
    if "length v = length (to_state_vector (state self))" for \<tau> v
    using step_state_derivative_vector [of v ypr p u1 u2 \<tau>] that
    by (simp add: to_state_vector_length Let_def)
  have "solve_ivp (step_state_derivative ypr p u1 u2) (0, 0) (to_state_vector (state self))
      = Inr (to_state_vector (state self))"
    using assms(1) total unfolding identity_on_empty_interval_def by blast
  then show ?thesis
    by (simp add: step_def u assms(2) from_to_state_vector)
qed

text \<open>A step of duration zero under the imbalanced command of the notebook.\<close>

theorem zero_duration_step_witness:
  "identity_on_empty_interval (free_fall_solver (g p_default))
   \<and> step (free_fall_solver (g p_default)) (\<lambda>R. (0, 0, 0)) p_default
        \<lparr>dt = 0, state = initial_state\<rparr> 0 \<lparr>rotor_rates = Int32Array [600, 500, 0, 0]\<rparr> =
      Inr \<lparr>dt = 0, state = initial_state\<rparr>"
proof -
  have two: "2 \<le> array_length (rotor_rates \<lparr>rotor_rates = Int32Array [600, 500, 0, 0]\<rparr>)"
    by (simp add: array_length_def)
  have zero: "dt \<lparr>dt = 0, state = initial_state\<rparr> = 0"
    by simp
  show ?thesis
    using zero_duration_step [OF free_fall_solver_identity_on_empty_interval zero two,
        of "g p_default" "\<lambda>R. (0, 0, 0)" p_default 0]
    by (simp add: free_fall_solver_identity_on_empty_interval)
qed

lemma generalized_inputs_zero_command: "generalized_inputs p (zero_command w) = Inr (0, 0)"
  by (cases w) (simp_all add: generalized_inputs_int32 generalized_inputs_int64)

text \<open>
  The claim C6 as stated fails: \<open>Params\<close> is constructed with mass \<open>-1\<close> and inertia \<open>0\<close>
  without an error, and \<open>step\<close> with these parameters and a time step of \<open>0\<close> runs the
  solver and returns.
\<close>

theorem Params_init_accepts_nonpositive:
  "Params_init (- 1) 0 (10 * 0.0254) 0.14553 0.01047 (0.3814 / 2) 9.80665 1.225 =
     Inr \<lparr>mass = - 1, inertia = 0, rotor_diameter = 10 * 0.0254,
          static_thrust_coefficient = 0.14553, static_torque_coefficient = 0.01047,
          arm_length = 0.3814 / 2, g = 9.80665, rho = 1.225\<rparr>
   \<and> step (free_fall_solver 9.80665) (\<lambda>R. (0, 0, 0))
        \<lparr>mass = - 1, inertia = 0, rotor_diameter = 10 * 0.0254,
          static_thrust_coefficient = 0.14553, static_torque_coefficient = 0.01047,
          arm_length = 0.3814 / 2, g = 9.80665, rho = 1.225\<rparr>
        \<lparr>dt = 0, state = initial_state\<rparr> 0 (zero_command Int32) =
      Inr \<lparr>dt = 0, state = initial_state\<rparr>"
  by (simp add: Params_init_def step_def generalized_inputs_zero_command free_fall_solver_def
      free_fall_flow_zero from_to_state_vector del: zero_command.simps)

lemma raw_to_state_vector_of_state:
  "raw_to_state_vector (raw_of_state s) = map Finite (to_state_vector s)"
  by (simp add: raw_to_state_vector_def raw_of_state_def to_state_vector_def)

text \<open>On a state that is well formed, \<open>step_raw\<close> is \<open>step\<close>.\<close>

lemma step_raw_of_state:
  "step_raw solve_ivp ypr p (dt self) (raw_of_state (state self)) t input =
     (case step (on_finite solve_ivp) ypr p self t input of
        Inl e \<Rightarrow> Inl e
      | Inr self' \<Rightarrow> Inr (state self'))"
  by (simp add: step_raw_def step_def on_finite_def raw_to_state_vector_of_state
      split: sum.splits prod.splits)

lemma checked_solver_validates: "validates_initial_vector (checked_solver integrate)"
  by (simp add: validates_initial_vector_def checked_solver_def)

lemma step_state_derivative_wrong_length:
  "length v \<noteq> 13 \<Longrightarrow> step_state_derivative ypr p u1 u2 \<tau> v = Inl DimensionError"
  by (simp add: step_state_derivative_def from_state_vector_def)

lemma step_raw_fails:
  assumes lib: "validates_initial_vector solve_ivp"
    and bad: "length (raw_to_state_vector s) \<noteq> 13 \<or> \<not> list_all is_finite (raw_to_state_vector s)"
  shows "\<exists>e. step_raw solve_ivp ypr p h s t input = Inl e"
proof (cases "generalized_inputs p input")
  case (Inl e)
  then show ?thesis by (simp add: step_raw_def)
next
  case (Inr u)
  obtain u1 u2 where u: "u = (u1, u2)" by (cases u)
  let ?f = "step_state_derivative ypr p u1 u2"
  have "\<exists>e. solve_ivp ?f (0, h) (raw_to_state_vector s) = Inl e"
  proof (cases "list_all is_finite (raw_to_state_vector s)")
    case False
    with lib show ?thesis
      unfolding validates_initial_vector_def by blast
  next
    case True
    with bad have "length (map float_val (raw_to_state_vector s)) \<noteq> 13"
      by simp
    then have "?f (fst (0, h)) (map float_val (raw_to_state_vector s)) = Inl DimensionError"
      by (rule step_state_derivative_wrong_length)
    with lib True show ?thesis
      unfolding validates_initial_vector_def by blast
  qed
  then show ?thesis
    by (auto simp add: step_raw_def Inr u)
qed

text \<open>
  C6, amended: constructing \<open>Params\<close> raises no error, whatever the values of mass and
  inertia (the time step is not a field of \<open>Params\<close>). Calling \<open>step\<close> with a malformed
  state, one whose vector has the wrong length or whose orientation is not finite, ends
  in an error before the integration begins, raised by what the library does before it
  integrates.
\<close>

theorem step_rejects_malformed_state:
  "Params_init m i d ct cq l gr r =
     Inr \<lparr>mass = m, inertia = i, rotor_diameter = d, static_thrust_coefficient = ct,
          static_torque_coefficient = cq, arm_length = l, g = gr, rho = r\<rparr>
   \<and> (validates_initial_vector solve_ivp \<and> length (raw_to_state_vector s) \<noteq> 13
        \<longrightarrow> (\<exists>e. step_raw solve_ivp ypr p h s t input = Inl e))
   \<and> (validates_initial_vector solve_ivp \<and> \<not> list_all is_finite (raw_orientation s)
        \<longrightarrow> (\<exists>e. step_raw solve_ivp ypr p h s t input = Inl e))"
proof (intro conjI impI)
  show "Params_init m i d ct cq l gr r =
     Inr \<lparr>mass = m, inertia = i, rotor_diameter = d, static_thrust_coefficient = ct,
          static_torque_coefficient = cq, arm_length = l, g = gr, rho = r\<rparr>"
    by (simp add: Params_init_def)
next
  assume "validates_initial_vector solve_ivp \<and> length (raw_to_state_vector s) \<noteq> 13"
  then show "\<exists>e. step_raw solve_ivp ypr p h s t input = Inl e"
    using step_raw_fails [of solve_ivp s ypr p h t input] by blast
next
  assume a: "validates_initial_vector solve_ivp \<and> \<not> list_all is_finite (raw_orientation s)"
  then have "\<not> list_all is_finite (raw_to_state_vector s)"
    by (simp add: raw_to_state_vector_def)
  with a show "\<exists>e. step_raw solve_ivp ypr p h s t input = Inl e"
    using step_raw_fails [of solve_ivp s ypr p h t input] by blast
qed

text \<open>
  The level state at rest with a \<open>NaN\<close> in its orientation, and with a position of two
  entries: \<open>step\<close> fails on both under the hover command, before the solver integrates.
\<close>

theorem step_rejects_malformed_state_witness:
  "validates_initial_vector (checked_solver (free_fall_solver (g p_default)))
   \<and> step_raw (checked_solver (free_fall_solver (g p_default))) (\<lambda>R. (0, 0, 0)) p_default
        (1 / 100)
        \<lparr>raw_position = [Finite 0, Finite 0, Finite 0],
          raw_velocity = [Finite 0, Finite 0, Finite 0],
          raw_orientation = [NaN, Finite 0, Finite 0, Finite 1],
          raw_angular_velocity = [Finite 0, Finite 0, Finite 0]\<rparr>
        0 \<lparr>rotor_rates = Int32Array [598, 598, 0, 0]\<rparr> = Inl ValueError
   \<and> step_raw (checked_solver (free_fall_solver (g p_default))) (\<lambda>R. (0, 0, 0)) p_default
        (1 / 100)
        \<lparr>raw_position = [Finite 0, Finite 0],
          raw_velocity = [Finite 0, Finite 0, Finite 0],
          raw_orientation = [Finite 0, Finite 0, Finite 0, Finite 1],
          raw_angular_velocity = [Finite 0, Finite 0, Finite 0]\<rparr>
        0 \<lparr>rotor_rates = Int32Array [598, 598, 0, 0]\<rparr> = Inl DimensionError"
proof -
  let ?lib = "checked_solver (free_fall_solver (g p_default))"
  let ?nan = "\<lparr>raw_position = [Finite 0, Finite 0, Finite 0],
          raw_velocity = [Finite 0, Finite 0, Finite 0],
          raw_orientation = [NaN, Finite 0, Finite 0, Finite 1],
          raw_angular_velocity = [Finite 0, Finite 0, Finite 0]\<rparr>"
  let ?short = "\<lparr>raw_position = [Finite 0, Finite 0],
          raw_velocity = [Finite 0, Finite 0, Finite 0],
          raw_orientation = [Finite 0, Finite 0, Finite 0, Finite 1],
          raw_angular_velocity = [Finite 0, Finite 0, Finite 0]\<rparr>"
  let ?cmd = "\<lparr>rotor_rates = Int32Array [598, 598, 0, 0]\<rparr>"
  have lib: "validates_initial_vector ?lib"
    by (rule checked_solver_validates)
  have nan: "\<not> list_all is_finite (raw_orientation ?nan)"
    by simp
  have short: "length (raw_to_state_vector ?short) \<noteq> 13"
    by (simp add: raw_to_state_vector_def)
  from step_rejects_malformed_state [of _ _ _ _ _ _ _ _ ?lib ?short "\<lambda>R. (0, 0, 0)" p_default
      "1 / 100" 0 ?cmd] lib short
  obtain e1 where e1: "step_raw ?lib (\<lambda>R. (0, 0, 0)) p_default (1 / 100) ?short 0 ?cmd = Inl e1"
    by blast
  from step_rejects_malformed_state [of _ _ _ _ _ _ _ _ ?lib ?nan "\<lambda>R. (0, 0, 0)" p_default
      "1 / 100" 0 ?cmd] lib nan
  obtain e2 where e2: "step_raw ?lib (\<lambda>R. (0, 0, 0)) p_default (1 / 100) ?nan 0 ?cmd = Inl e2"
    by blast
  have "e1 = DimensionError"
    using e1
    by (simp add: step_raw_def generalized_inputs_int32 checked_solver_def
        raw_to_state_vector_def step_state_derivative_wrong_length)
  moreover have "e2 = ValueError"
    using e2
    by (simp add: step_raw_def generalized_inputs_int32 checked_solver_def
        raw_to_state_vector_def)
  ultimately show ?thesis
    using lib e1 e2 by simp
qed

section \<open>Continuous dynamics: results\<close>

lemma deriv_zero_const:
  fixes h :: "real \<Rightarrow> real"
  assumes der: "\<And>t. 0 \<le> t \<Longrightarrow> t \<le> T \<Longrightarrow> (h has_real_derivative 0) (at t)"
    and t: "0 \<le> t" "t \<le> T"
  shows "h t = h 0"
proof (cases "0 < t")
  case True
  have "isCont h x" if "x \<in> {0..t}" for x
    using der [of x] that t by (auto intro: DERIV_isCont)
  then have "continuous_on {0..t} h"
    by (simp add: continuous_at_imp_continuous_on)
  moreover have "(h has_real_derivative 0) (at x)" if "0 < x" "x < t" for x
    using der [of x] that t by simp
  ultimately show ?thesis
    using DERIV_isconst_end [OF True, of h] by blast
next
  case False
  with t show ?thesis by simp
qed

text \<open>
  C9: the derivative returned by \<open>state_derivative\<close> has a zero y entry in its velocity
  rate and zero x and z entries in its angular velocity rate, for every state and all
  inputs; consequently, along every curve of states that follows these rates on the
  interval \<open>[0, T]\<close> of a step, the y velocity and the x and z angular velocities keep
  their initial values.
\<close>

theorem planar_conservation:
  assumes traj: "\<And>t. 0 \<le> t \<Longrightarrow> t \<le> T \<Longrightarrow>
      \<exists>d. state_derivative ypr p (S t) u1 u2 = Inr d
        \<and> ((\<lambda>\<tau>. vy (velocity (S \<tau>))) has_real_derivative vy (velocity d)) (at t)
        \<and> ((\<lambda>\<tau>. vx (angular_velocity (S \<tau>))) has_real_derivative vx (angular_velocity d)) (at t)
        \<and> ((\<lambda>\<tau>. vz (angular_velocity (S \<tau>))) has_real_derivative vz (angular_velocity d)) (at t)"
  shows "(\<exists>d. state_derivative ypr p s u1 u2 = Inr d
            \<and> vy (velocity d) = 0 \<and> vx (angular_velocity d) = 0 \<and> vz (angular_velocity d) = 0)
         \<and> (\<forall>t. 0 \<le> t \<and> t \<le> T \<longrightarrow>
               vy (velocity (S t)) = vy (velocity (S 0))
             \<and> vx (angular_velocity (S t)) = vx (angular_velocity (S 0))
             \<and> vz (angular_velocity (S t)) = vz (angular_velocity (S 0)))"
proof -
  have rates: "\<exists>d. state_derivative ypr p s' u1 u2 = Inr d
      \<and> vy (velocity d) = 0 \<and> vx (angular_velocity d) = 0 \<and> vz (angular_velocity d) = 0" for s'
    by (cases "orientation s'"; cases "angular_velocity s'")
       (simp add: state_derivative_def dRot3_components vec3_list_def Let_def)
  have zero: "((\<lambda>\<tau>. vy (velocity (S \<tau>))) has_real_derivative 0) (at t)
      \<and> ((\<lambda>\<tau>. vx (angular_velocity (S \<tau>))) has_real_derivative 0) (at t)
      \<and> ((\<lambda>\<tau>. vz (angular_velocity (S \<tau>))) has_real_derivative 0) (at t)"
    if t: "0 \<le> t" "t \<le> T" for t
  proof -
    from traj [OF t] obtain d where
      d: "state_derivative ypr p (S t) u1 u2 = Inr d" and
      d1: "((\<lambda>\<tau>. vy (velocity (S \<tau>))) has_real_derivative vy (velocity d)) (at t)" and
      d2: "((\<lambda>\<tau>. vx (angular_velocity (S \<tau>))) has_real_derivative
             vx (angular_velocity d)) (at t)" and
      d3: "((\<lambda>\<tau>. vz (angular_velocity (S \<tau>))) has_real_derivative
             vz (angular_velocity d)) (at t)"
      by blast
    from rates [of "S t"] d have "vy (velocity d) = 0" "vx (angular_velocity d) = 0"
      "vz (angular_velocity d) = 0"
      by simp_all
    with d1 d2 d3 show ?thesis by simp
  qed
  have c1: "vy (velocity (S t)) = vy (velocity (S 0))" if t: "0 \<le> t" "t \<le> T" for t
    by (rule deriv_zero_const [of T "\<lambda>\<tau>. vy (velocity (S \<tau>))" t]) (use zero t in simp_all)
  have c2: "vx (angular_velocity (S t)) = vx (angular_velocity (S 0))"
    if t: "0 \<le> t" "t \<le> T" for t
    by (rule deriv_zero_const [of T "\<lambda>\<tau>. vx (angular_velocity (S \<tau>))" t])
       (use zero t in simp_all)
  have c3: "vz (angular_velocity (S t)) = vz (angular_velocity (S 0))"
    if t: "0 \<le> t" "t \<le> T" for t
    by (rule deriv_zero_const [of T "\<lambda>\<tau>. vz (angular_velocity (S \<tau>))" t])
       (use zero t in simp_all)
  show ?thesis
    using rates [of s] c1 c2 c3 by blast
qed

text \<open>The curve of free fall from rest, over a step of a hundredth of a second.\<close>

theorem planar_conservation_witness:
  "vy (velocity (free_fall_state (g p_default) (1 / 100) initial_state)) =
     vy (velocity (free_fall_state (g p_default) 0 initial_state))
   \<and> vx (angular_velocity (free_fall_state (g p_default) (1 / 100) initial_state)) =
     vx (angular_velocity (free_fall_state (g p_default) 0 initial_state))
   \<and> vz (angular_velocity (free_fall_state (g p_default) (1 / 100) initial_state)) =
     vz (angular_velocity (free_fall_state (g p_default) 0 initial_state))"
proof -
  let ?S = "\<lambda>t. free_fall_state (g p_default) t initial_state"
  let ?d = "\<lambda>t. \<lparr>position = velocity (?S t), velocity = Vec3 0 0 (- g p_default),
      orientation = Rot3 0 0 0 0, angular_velocity = Vec3 0 0 0\<rparr>"
  have sd: "state_derivative (\<lambda>R. (0, 0, 0)) p_default (?S t) 0 0 = Inr (?d t)" for t
    by (simp add: state_derivative_def free_fall_state_def initial_state_def Rot3_identity_def
        dRot3_components vec3_list_def)
  have vel: "(\<lambda>\<tau>. vy (velocity (?S \<tau>))) = (\<lambda>\<tau>. 0)"
    and wx: "(\<lambda>\<tau>. vx (angular_velocity (?S \<tau>))) = (\<lambda>\<tau>. 0)"
    and wz: "(\<lambda>\<tau>. vz (angular_velocity (?S \<tau>))) = (\<lambda>\<tau>. 0)"
    by (simp_all add: free_fall_state_def initial_state_def)
  have traj: "\<exists>d. state_derivative (\<lambda>R. (0, 0, 0)) p_default (?S t) 0 0 = Inr d
        \<and> ((\<lambda>\<tau>. vy (velocity (?S \<tau>))) has_real_derivative vy (velocity d)) (at t)
        \<and> ((\<lambda>\<tau>. vx (angular_velocity (?S \<tau>))) has_real_derivative
              vx (angular_velocity d)) (at t)
        \<and> ((\<lambda>\<tau>. vz (angular_velocity (?S \<tau>))) has_real_derivative
              vz (angular_velocity d)) (at t)" for t
    unfolding vel wx wz
    by (rule exI [of _ "?d t"]) (simp add: sd)
  have "(0::real) \<le> 1 / 100 \<and> (1::real) / 100 \<le> 1 / 100"
    by simp
  with planar_conservation [of "1 / 100" "\<lambda>R. (0, 0, 0)" p_default ?S 0 0 initial_state,
      OF traj]
  show ?thesis
    by blast
qed

section \<open>Free fall\<close>

lemma lt13_cases:
  "i < 13 \<Longrightarrow> i \<in> {0, 1, 2, 3, 4, 5, 6, 7, 8, 9, 10, 11, 12::nat}"
  by simp arith

lemma free_fall_unique:
  assumes T: "0 \<le> T"
    and sol: "ivp_solution (step_state_derivative ypr p 0 0) T (to_state_vector s) Y"
    and w0: "angular_velocity s = Vec3 0 0 0"
  shows "Y T = free_fall_flow (g p) T (to_state_vector s)"
proof -
  define D where "D t =
     [Y t ! 3, Y t ! 4, Y t ! 5, 0, 0, - g p,
      (Y t ! 9 * Y t ! 10 - Y t ! 8 * Y t ! 11 + Y t ! 7 * Y t ! 12) / 2,
      (Y t ! 8 * Y t ! 10 + Y t ! 9 * Y t ! 11 - Y t ! 6 * Y t ! 12) / 2,
      (- Y t ! 7 * Y t ! 10 + Y t ! 6 * Y t ! 11 + Y t ! 9 * Y t ! 12) / 2,
      (- Y t ! 6 * Y t ! 10 - Y t ! 7 * Y t ! 11 - Y t ! 8 * Y t ! 12) / 2,
      0, 0, 0]" for t
  have Y0: "Y 0 = to_state_vector s"
    using sol by (simp add: ivp_solution_def)
  have len: "length (Y t) = 13" if "0 \<le> t" "t \<le> T" for t
    using sol that by (auto simp add: ivp_solution_def to_state_vector_length)
  have der: "((\<lambda>\<tau>. Y \<tau> ! i) has_real_derivative (D t ! i)) (at t)"
    if "0 \<le> t" "t \<le> T" "i < 13" for t i
  proof -
    from sol that(1,2) obtain d where
      d: "step_state_derivative ypr p 0 0 t (Y t) = Inr d" and
      di: "\<forall>i<13. ((\<lambda>\<tau>. Y \<tau> ! i) has_real_derivative d ! i) (at t)"
      unfolding ivp_solution_def to_state_vector_length by blast
    have "d = D t"
      using d step_state_derivative_vector [OF len [OF that(1,2)], of ypr p 0 0 t]
      by (simp add: D_def Let_def)
    with di that(3) show ?thesis by simp
  qed
  have init: "Y 0 ! 10 = 0" "Y 0 ! 11 = 0" "Y 0 ! 12 = 0"
    by (simp_all add: Y0 to_state_vector_def vec3_list_def to_storage_def w0)
  have w10: "Y t ! 10 = 0" if "0 \<le> t" "t \<le> T" for t
    using deriv_zero_const [of T "\<lambda>\<tau>. Y \<tau> ! 10" t] der [of _ 10] that init
    by (simp add: D_def)
  have w11: "Y t ! 11 = 0" if "0 \<le> t" "t \<le> T" for t
    using deriv_zero_const [of T "\<lambda>\<tau>. Y \<tau> ! 11" t] der [of _ 11] that init
    by (simp add: D_def)
  have w12: "Y t ! 12 = 0" if "0 \<le> t" "t \<le> T" for t
    using deriv_zero_const [of T "\<lambda>\<tau>. Y \<tau> ! 12" t] der [of _ 12] that init
    by (simp add: D_def)
  have q6: "Y t ! 6 = Y 0 ! 6" if "0 \<le> t" "t \<le> T" for t
    using deriv_zero_const [of T "\<lambda>\<tau>. Y \<tau> ! 6" t] der [of _ 6] that w10 w11 w12
    by (simp add: D_def)
  have q7: "Y t ! 7 = Y 0 ! 7" if "0 \<le> t" "t \<le> T" for t
    using deriv_zero_const [of T "\<lambda>\<tau>. Y \<tau> ! 7" t] der [of _ 7] that w10 w11 w12
    by (simp add: D_def)
  have q8: "Y t ! 8 = Y 0 ! 8" if "0 \<le> t" "t \<le> T" for t
    using deriv_zero_const [of T "\<lambda>\<tau>. Y \<tau> ! 8" t] der [of _ 8] that w10 w11 w12
    by (simp add: D_def)
  have q9: "Y t ! 9 = Y 0 ! 9" if "0 \<le> t" "t \<le> T" for t
    using deriv_zero_const [of T "\<lambda>\<tau>. Y \<tau> ! 9" t] der [of _ 9] that w10 w11 w12
    by (simp add: D_def)
  have v3: "Y t ! 3 = Y 0 ! 3" if "0 \<le> t" "t \<le> T" for t
    using deriv_zero_const [of T "\<lambda>\<tau>. Y \<tau> ! 3" t] der [of _ 3] that
    by (simp add: D_def)
  have v4: "Y t ! 4 = Y 0 ! 4" if "0 \<le> t" "t \<le> T" for t
    using deriv_zero_const [of T "\<lambda>\<tau>. Y \<tau> ! 4" t] der [of _ 4] that
    by (simp add: D_def)
  have v5: "Y t ! 5 = Y 0 ! 5 - g p * t" if "0 \<le> t" "t \<le> T" for t
  proof -
    have "((\<lambda>\<tau>. Y \<tau> ! 5 + g p * \<tau>) has_real_derivative 0) (at x)"
      if "0 \<le> x" "x \<le> T" for x
      using der [OF that, of 5] by (auto intro!: derivative_eq_intros simp add: D_def)
    from deriv_zero_const [of T "\<lambda>\<tau>. Y \<tau> ! 5 + g p * \<tau>" t, OF this that]
    show ?thesis by simp
  qed
  have p0: "Y t ! 0 = Y 0 ! 0 + t * Y 0 ! 3" if "0 \<le> t" "t \<le> T" for t
  proof -
    have "((\<lambda>\<tau>. Y \<tau> ! 0 - \<tau> * Y 0 ! 3) has_real_derivative 0) (at x)"
      if "0 \<le> x" "x \<le> T" for x
      using der [OF that, of 0] v3 [OF that]
      by (auto intro!: derivative_eq_intros simp add: D_def)
    from deriv_zero_const [of T "\<lambda>\<tau>. Y \<tau> ! 0 - \<tau> * Y 0 ! 3" t, OF this that]
    show ?thesis by simp
  qed
  have p1: "Y t ! 1 = Y 0 ! 1 + t * Y 0 ! 4" if "0 \<le> t" "t \<le> T" for t
  proof -
    have "((\<lambda>\<tau>. Y \<tau> ! 1 - \<tau> * Y 0 ! 4) has_real_derivative 0) (at x)"
      if "0 \<le> x" "x \<le> T" for x
      using der [OF that, of 1] v4 [OF that]
      by (auto intro!: derivative_eq_intros simp add: D_def)
    from deriv_zero_const [of T "\<lambda>\<tau>. Y \<tau> ! 1 - \<tau> * Y 0 ! 4" t, OF this that]
    show ?thesis by simp
  qed
  have p2: "Y t ! 2 = Y 0 ! 2 + t * Y 0 ! 5 - g p * t ^ 2 / 2" if "0 \<le> t" "t \<le> T" for t
  proof -
    have "((\<lambda>\<tau>. Y \<tau> ! 2 - (\<tau> * Y 0 ! 5 - g p * \<tau> ^ 2 / 2)) has_real_derivative 0) (at x)"
      if "0 \<le> x" "x \<le> T" for x
      using der [OF that, of 2] v5 [OF that]
      by (auto intro!: derivative_eq_intros simp add: D_def)
    from deriv_zero_const
      [of T "\<lambda>\<tau>. Y \<tau> ! 2 - (\<tau> * Y 0 ! 5 - g p * \<tau> ^ 2 / 2)" t, OF this that]
    show ?thesis by simp
  qed
  have TT: "0 \<le> T" "T \<le> T" using T by simp_all
  obtain a0 a1 a2 a3 a4 a5 a6 a7 a8 a9 a10 a11 a12 where
    YT: "Y T = [a0, a1, a2, a3, a4, a5, a6, a7, a8, a9, a10, a11, a12]"
    using len [OF TT] by (rule length13E)
  show ?thesis
    using p0 [OF TT] p1 [OF TT] p2 [OF TT] v3 [OF TT] v4 [OF TT] v5 [OF TT]
      q6 [OF TT] q7 [OF TT] q8 [OF TT] q9 [OF TT] w10 [OF TT] w11 [OF TT] w12 [OF TT]
    unfolding YT Y0
    by (simp add: free_fall_flow_def to_state_vector_def vec3_list_def to_storage_def w0)
qed

lemma free_fall_flow_solution:
  assumes w0: "angular_velocity s = Vec3 0 0 0"
  shows "ivp_solution (step_state_derivative ypr p 0 0) T (to_state_vector s)
     (\<lambda>t. free_fall_flow (g p) t (to_state_vector s))"
proof -
  let ?Y = "\<lambda>t. free_fall_flow (g p) t (to_state_vector s)"
  have len: "length (?Y t) = 13" for t
    by (simp add: free_fall_flow_def to_state_vector_length)
  have w: "?Y t ! 10 = 0" "?Y t ! 11 = 0" "?Y t ! 12 = 0" for t
    by (simp_all add: free_fall_flow_def to_state_vector_def vec3_list_def to_storage_def w0)
  show ?thesis
    unfolding ivp_solution_def to_state_vector_length
  proof (intro conjI allI impI)
    show "?Y 0 = to_state_vector s" by (rule free_fall_flow_zero)
  next
    fix t
    show "\<exists>d. step_state_derivative ypr p 0 0 t (?Y t) = Inr d \<and> length (?Y t) = 13 \<and>
       length d = 13 \<and> (\<forall>i<13. ((\<lambda>\<tau>. ?Y \<tau> ! i) has_real_derivative d ! i) (at t))"
      unfolding step_state_derivative_vector [OF len] Let_def
      apply (intro exI conjI)
         apply (rule refl)
        apply (rule len)
       apply simp
      apply (intro allI impI)
      apply (drule lt13_cases)
      apply (simp only: w)
      apply (auto simp add: free_fall_flow_def to_state_vector_def vec3_list_def to_storage_def
          intro!: derivative_eq_intros)
      done
  qed
qed

lemma free_fall_solver_accurate:
  assumes "0 \<le> eps"
  shows "accurate_on_free_fall (free_fall_solver (g p)) ypr p T eps"
  unfolding accurate_on_free_fall_def
proof (intro allI impI)
  fix s :: QuadrotorState
  assume w0: "angular_velocity s = Vec3 0 0 0"
  let ?Y = "\<lambda>t. free_fall_flow (g p) t (to_state_vector s)"
  have "ivp_solution (step_state_derivative ypr p 0 0) T (to_state_vector s) ?Y"
    using w0 by (rule free_fall_flow_solution)
  moreover have "free_fall_solver (g p) (step_state_derivative ypr p 0 0) (0, T)
      (to_state_vector s) = Inr (?Y T)"
    by (simp add: free_fall_solver_def)
  moreover have "length (?Y T) = 13"
    by (simp add: free_fall_flow_def to_state_vector_length)
  ultimately show "\<exists>Y y. ivp_solution (step_state_derivative ypr p 0 0) T (to_state_vector s) Y \<and>
       free_fall_solver (g p) (step_state_derivative ypr p 0 0) (0, T) (to_state_vector s) = Inr y \<and>
       length y = 13 \<and> (\<forall>i<6. \<bar>y ! i - Y T ! i\<bar> \<le> eps) \<and>
       (\<forall>i. 6 \<le> i \<and> i < 13 \<longrightarrow> y ! i = Y T ! i)"
    using assms by (intro exI [of _ ?Y] exI [of _ "?Y T"]) simp
qed

lemma step_free_fall_accurate:
  assumes acc: "accurate_on_free_fall solve_ivp ypr p (dt self) eps"
    and T: "0 \<le> dt self"
    and w0: "angular_velocity (state self) = Vec3 0 0 0"
  shows "\<exists>s'. step solve_ivp ypr p self t (zero_command w) = Inr (self\<lparr>state := s'\<rparr>)
      \<and> orientation s' = orientation (state self)
      \<and> angular_velocity s' = Vec3 0 0 0
      \<and> \<bar>vz (velocity s') - (vz (velocity (state self)) - g p * dt self)\<bar> \<le> eps
      \<and> \<bar>vz (position s') - (vz (position (state self))
            + dt self * vz (velocity (state self)) - g p * (dt self) ^ 2 / 2)\<bar> \<le> eps"
proof -
  let ?s = "state self" and ?T = "dt self"
  from acc w0 obtain Y y where
    sol: "ivp_solution (step_state_derivative ypr p 0 0) ?T (to_state_vector ?s) Y" and
    res: "solve_ivp (step_state_derivative ypr p 0 0) (0, ?T) (to_state_vector ?s) = Inr y" and
    len: "length y = 13" and
    near: "\<forall>i<6. \<bar>y ! i - Y ?T ! i\<bar> \<le> eps" and
    same: "\<forall>i. 6 \<le> i \<and> i < 13 \<longrightarrow> y ! i = Y ?T ! i"
    unfolding accurate_on_free_fall_def by blast
  have YT: "Y ?T = free_fall_flow (g p) ?T (to_state_vector ?s)"
    by (rule free_fall_unique [OF T sol w0])
  have flow: "free_fall_flow (g p) ?T (to_state_vector ?s) =
      to_state_vector (free_fall_state (g p) ?T ?s)"
    by (simp add: free_fall_flow_def free_fall_state_def to_state_vector_def vec3_list_def
        to_storage_def)
  let ?e = "free_fall_state (g p) ?T ?s"
  let ?s' = "\<lparr>position = Vec3 (y ! 0) (y ! 1) (y ! 2), velocity = Vec3 (y ! 3) (y ! 4) (y ! 5),
      orientation = Rot3 (y ! 6) (y ! 7) (y ! 8) (y ! 9),
      angular_velocity = Vec3 (y ! 10) (y ! 11) (y ! 12)\<rparr>"
  have dec: "from_state_vector y = Inr ?s'"
    using len by (simp add: from_state_vector_def)
  have st: "step solve_ivp ypr p self t (zero_command w) = Inr (self\<lparr>state := ?s'\<rparr>)"
    by (simp add: step_def generalized_inputs_zero_command res dec)
  have e: "Y ?T = to_state_vector ?e"
    using YT flow by simp
  have n2: "\<bar>y ! 2 - Y ?T ! 2\<bar> \<le> eps" and n5: "\<bar>y ! 5 - Y ?T ! 5\<bar> \<le> eps"
    using near by simp_all
  have s6: "y ! 6 = Y ?T ! 6" "y ! 7 = Y ?T ! 7" "y ! 8 = Y ?T ! 8" "y ! 9 = Y ?T ! 9"
    "y ! 10 = Y ?T ! 10" "y ! 11 = Y ?T ! 11" "y ! 12 = Y ?T ! 12"
    using same by simp_all
  have q: "orientation ?s' = orientation ?s"
    using s6 unfolding e
    by (cases "orientation ?s")
       (simp add: to_state_vector_def vec3_list_def to_storage_def free_fall_state_def)
  have w: "angular_velocity ?s' = Vec3 0 0 0"
    using s6 unfolding e
    by (simp add: to_state_vector_def vec3_list_def to_storage_def free_fall_state_def w0)
  have v: "\<bar>vz (velocity ?s') - (vz (velocity ?s) - g p * ?T)\<bar> \<le> eps"
    using n5 unfolding e
    by (simp add: to_state_vector_def vec3_list_def to_storage_def free_fall_state_def)
  have z: "\<bar>vz (position ?s') - (vz (position ?s) + ?T * vz (velocity ?s)
      - g p * ?T ^ 2 / 2)\<bar> \<le> eps"
    using n2 unfolding e
    by (simp add: to_state_vector_def vec3_list_def to_storage_def free_fall_state_def)
  from st q w v z show ?thesis by blast
qed

lemma free_fall_within_step:
  assumes inv: "free_fall_within gr T eps k s"
    and T: "0 \<le> T"
    and q: "orientation s' = orientation s"
    and w: "angular_velocity s' = Vec3 0 0 0"
    and v: "\<bar>vz (velocity s') - (vz (velocity s) - gr * T)\<bar> \<le> eps"
    and z: "\<bar>vz (position s') - (vz (position s) + T * vz (velocity s) - gr * T ^ 2 / 2)\<bar>
              \<le> eps"
  shows "free_fall_within gr T eps (Suc k) s'"
proof -
  have iv: "\<bar>vz (velocity s) + gr * (real k * T)\<bar> \<le> real k * eps"
    and iz: "\<bar>vz (position s) + gr * (real k * T) ^ 2 / 2\<bar>
         \<le> real k * eps + real k * (real k - 1) / 2 * T * eps"
    and iq: "orientation s = Rot3_identity"
    using inv by (simp_all add: free_fall_within_def)
  have v': "\<bar>vz (velocity s') + gr * (real (Suc k) * T)\<bar> \<le> real (Suc k) * eps"
  proof -
    have "vz (velocity s') + gr * (real (Suc k) * T) =
        (vz (velocity s') - (vz (velocity s) - gr * T)) + (vz (velocity s) + gr * (real k * T))"
      by (simp add: algebra_simps)
    then have "\<bar>vz (velocity s') + gr * (real (Suc k) * T)\<bar> \<le> eps + real k * eps"
      using v iv by linarith
    then show ?thesis by (simp add: algebra_simps)
  qed
  have z': "\<bar>vz (position s') + gr * (real (Suc k) * T) ^ 2 / 2\<bar>
         \<le> real (Suc k) * eps + real (Suc k) * (real (Suc k) - 1) / 2 * T * eps"
  proof -
    have split: "vz (position s') + gr * (real (Suc k) * T) ^ 2 / 2 =
        (vz (position s') - (vz (position s) + T * vz (velocity s) - gr * T ^ 2 / 2))
        + (vz (position s) + gr * (real k * T) ^ 2 / 2)
        + T * (vz (velocity s) + gr * (real k * T))"
      by (simp add: power2_eq_square algebra_simps)
    have "\<bar>T * (vz (velocity s) + gr * (real k * T))\<bar> \<le> T * (real k * eps)"
      using T iv by (simp add: abs_mult mult_left_mono)
    then have "\<bar>vz (position s') + gr * (real (Suc k) * T) ^ 2 / 2\<bar>
        \<le> eps + (real k * eps + real k * (real k - 1) / 2 * T * eps) + T * (real k * eps)"
      unfolding split using z iz by linarith
    also have "\<dots> = real (Suc k) * eps + real (Suc k) * (real (Suc k) - 1) / 2 * T * eps"
      by (simp add: field_simps)
    finally show ?thesis .
  qed
  from v' z' q iq w show ?thesis
    by (simp add: free_fall_within_def)
qed

lemma simulate_free_fall_within:
  assumes acc: "accurate_on_free_fall solve_ivp ypr p (dt self) eps"
    and T: "0 \<le> dt self"
    and inv: "free_fall_within (g p) (dt self) eps k0 (state self)"
  shows "\<exists>states. simulate solve_ivp ypr p self t (replicate n (zero_command w)) = Inr states
      \<and> length states = n
      \<and> (\<forall>j<n. free_fall_within (g p) (dt self) eps (k0 + Suc j) (states ! j))"
  using assms
proof (induction n arbitrary: self t k0)
  case 0
  show ?case by simp
next
  case (Suc n)
  have w0: "angular_velocity (state self) = Vec3 0 0 0"
    using Suc.prems(3) by (simp add: free_fall_within_def)
  from step_free_fall_accurate [OF Suc.prems(1,2) w0, of t w] obtain s' where
    st: "step solve_ivp ypr p self t (zero_command w) = Inr (self\<lparr>state := s'\<rparr>)" and
    q: "orientation s' = orientation (state self)" and
    w: "angular_velocity s' = Vec3 0 0 0" and
    v: "\<bar>vz (velocity s') - (vz (velocity (state self)) - g p * dt self)\<bar> \<le> eps" and
    z: "\<bar>vz (position s') - (vz (position (state self))
            + dt self * vz (velocity (state self)) - g p * (dt self) ^ 2 / 2)\<bar> \<le> eps"
    by blast
  have inv': "free_fall_within (g p) (dt self) eps (Suc k0) s'"
    by (rule free_fall_within_step [OF Suc.prems(3) Suc.prems(2) q w v z])
  from Suc.IH [of "self\<lparr>state := s'\<rparr>" "Suc k0" "t + dt self"] Suc.prems(1,2) inv'
  obtain states where
    sim: "simulate solve_ivp ypr p (self\<lparr>state := s'\<rparr>) (t + dt self)
            (replicate n (zero_command w)) = Inr states" and
    len: "length states = n" and
    all: "\<forall>j<n. free_fall_within (g p) (dt self) eps (Suc k0 + Suc j) (states ! j)"
    by auto
  have "simulate solve_ivp ypr p self t (replicate (Suc n) (zero_command w)) = Inr (s' # states)"
    by (simp add: st sim)
  moreover have "length (s' # states) = Suc n"
    using len by simp
  moreover have "free_fall_within (g p) (dt self) eps (k0 + Suc j) ((s' # states) ! j)"
    if "j < Suc n" for j
  proof (cases j)
    case 0
    with inv' show ?thesis by simp
  next
    case (Suc j')
    with that all show ?thesis by simp
  qed
  ultimately show ?case by blast
qed

lemma free_fall_within_initial: "free_fall_within gr T eps 0 initial_state"
  by (simp add: free_fall_within_def initial_state_def)

text \<open>
  C5: free fall. From rest at the origin, level, with zero rotor rates at every tick and
  a solver of accuracy \<open>eps\<close>, the run does not fail, and the state recorded after \<open>k + 1\<close>
  ticks, that is after the time \<open>(k + 1) * dt\<close>, has the z velocity \<open>- g * time\<close> and the z
  position \<open>- g * time\<^sup>2 / 2\<close> within the tolerance accumulated over the ticks, and the
  orientation and the angular velocity of the start. With an exact solver (\<open>eps = 0\<close>)
  the two equalities are exact.
\<close>

theorem free_fall_within_tolerance:
  assumes "accurate_on_free_fall solve_ivp ypr p (dt self) eps"
    and "0 < dt self"
    and "state self = initial_state"
  shows "\<exists>states. simulate solve_ivp ypr p self t (replicate n (zero_command w)) = Inr states
      \<and> length states = n
      \<and> (\<forall>k<n.
            \<bar>vz (velocity (states ! k)) + g p * (real (Suc k) * dt self)\<bar> \<le> real (Suc k) * eps
          \<and> \<bar>vz (position (states ! k)) + g p * (real (Suc k) * dt self) ^ 2 / 2\<bar>
              \<le> real (Suc k) * eps + real (Suc k) * real k / 2 * dt self * eps
          \<and> orientation (states ! k) = Rot3_identity
          \<and> angular_velocity (states ! k) = Vec3 0 0 0)"
proof -
  have "free_fall_within (g p) (dt self) eps 0 (state self)"
    using assms(3) by (simp add: free_fall_within_initial)
  from simulate_free_fall_within [OF assms(1) _ this, of t n w] assms(2)
  show ?thesis
    by (simp add: free_fall_within_def)
qed

text \<open>
  A hundred ticks of a hundredth of a second with the default parameters and a
  tolerance of a millionth: after one second the z velocity is \<open>-9.80665\<close> and the z
  position \<open>-4.903325\<close>, within the accumulated tolerance.
\<close>

theorem free_fall_within_tolerance_witness:
  "accurate_on_free_fall (free_fall_solver (g p_default)) (\<lambda>R. (0, 0, 0)) p_default
      (1 / 100) (1 / 1000000)
   \<and> (\<exists>states.
        simulate (free_fall_solver (g p_default)) (\<lambda>R. (0, 0, 0)) p_default
          \<lparr>dt = 1 / 100, state = initial_state\<rparr> 0 (replicate 100 (zero_command Int32)) = Inr states
        \<and> length states = 100
        \<and> \<bar>vz (velocity (states ! 99)) + 9.80665\<bar> \<le> 1 / 10000
        \<and> \<bar>vz (position (states ! 99)) + 4.903325\<bar> \<le> 1 / 10000 + 4950 / 100000000
        \<and> orientation (states ! 99) = Rot3_identity
        \<and> angular_velocity (states ! 99) = Vec3 0 0 0)"
proof -
  have acc: "accurate_on_free_fall (free_fall_solver (g p_default)) (\<lambda>R. (0, 0, 0)) p_default
      (dt \<lparr>dt = 1 / 100, state = initial_state\<rparr>) (1 / 1000000)"
    by (simp add: free_fall_solver_accurate)
  from free_fall_within_tolerance [OF acc, of 0 100 Int32] obtain states where
    sim: "simulate (free_fall_solver (g p_default)) (\<lambda>R. (0, 0, 0)) p_default
          \<lparr>dt = 1 / 100, state = initial_state\<rparr> 0 (replicate 100 (zero_command Int32)) = Inr states" and
    len: "length states = 100" and
    all: "\<forall>k<100.
            \<bar>vz (velocity (states ! k)) + g p_default * (real (Suc k) * (1 / 100))\<bar>
              \<le> real (Suc k) * (1 / 1000000)
          \<and> \<bar>vz (position (states ! k)) + g p_default * (real (Suc k) * (1 / 100)) ^ 2 / 2\<bar>
              \<le> real (Suc k) * (1 / 1000000) + real (Suc k) * real k / 2 * (1 / 100) * (1 / 1000000)
          \<and> orientation (states ! k) = Rot3_identity
          \<and> angular_velocity (states ! k) = Vec3 0 0 0"
    by auto
  have "(99::nat) < 100" by simp
  with all have
    "\<bar>vz (velocity (states ! 99)) + g p_default * (real (Suc 99) * (1 / 100))\<bar>
              \<le> real (Suc 99) * (1 / 1000000)
          \<and> \<bar>vz (position (states ! 99)) + g p_default * (real (Suc 99) * (1 / 100)) ^ 2 / 2\<bar>
              \<le> real (Suc 99) * (1 / 1000000) + real (Suc 99) * real 99 / 2 * (1 / 100) * (1 / 1000000)
          \<and> orientation (states ! 99) = Rot3_identity
          \<and> angular_velocity (states ! 99) = Vec3 0 0 0"
    by blast
  then have last:
    "\<bar>vz (velocity (states ! 99)) + 9.80665\<bar> \<le> 1 / 10000
        \<and> \<bar>vz (position (states ! 99)) + 4.903325\<bar> \<le> 1 / 10000 + 4950 / 100000000
        \<and> orientation (states ! 99) = Rot3_identity
        \<and> angular_velocity (states ! 99) = Vec3 0 0 0"
    by (simp add: p_default_def)
  from acc sim len last show ?thesis
    by auto
qed

end
